theory Spec2Isabelle
  imports Complex_Main
begin

section \<open>Common ground\<close>

text \<open>
  The repository is glue around SimpleITK, numpy and matplotlib. Python exceptions are
  values of \<open>error\<close>; a function that may raise returns \<open>error + 'a\<close> with \<open>Inl\<close> for
  the exception. Python floats are only stored and handed on by the modelled code, never
  computed with, so they are \<open>real\<close>. Files written are kept as a log, oldest first.
\<close>

datatype error = ValueError string | IndexError | OverflowError | TypeError

type_synonym float = real

section \<open>miapy/plotting/plotter.py\<close>

subsection \<open>Arrays, pictures and the file log\<close>

text \<open>
  A numpy array is its shape and its elements in row-major order; \<open>ndim\<close> is the length
  of the shape. A SimpleITK volume is the list of its z-slices, each a list of rows, which
  is the order \<open>GetArrayFromImage\<close> gives.
\<close>

record 'a ndarray =
  shape :: "nat list"
  data :: "'a list"

definition ndim :: "'a ndarray \<Rightarrow> nat" where
  "ndim a = length (shape a)"

definition wf_ndarray :: "'a ndarray \<Rightarrow> bool" where
  "wf_ndarray a \<longleftrightarrow> length (data a) = prod_list (shape a)"

type_synonym 'a volume = "'a list list list"

text \<open>
  What matplotlib is asked to draw. A histogram keeps the flattened data, the bin count
  and the three optional texts (\<open>if title: plt.title(title)\<close> sets a text only when the
  string is non-empty). A segmentation picture keeps the grey image, the masked overlay
  (\<open>None\<close> is a masked, hence transparent, element), the blending value and the colour
  list given to \<open>LinearSegmentedColormap.from_list\<close>. How matplotlib turns these into
  pixels is not part of the repository.
\<close>

datatype ('a, 'b) picture =
    Histogram "'a list" int "string option" "string option" "string option"
  | HistogramOverlay "'a list" "'a list" int "string option" "string option" "string option"
  | Segmentation "'b ndarray" "nat option ndarray" float "(float \<times> float \<times> float) list"

type_synonym ('a, 'b) files = "(string \<times> ('a, 'b) picture) list"

definition if_text :: "string \<Rightarrow> string option" where
  "if_text s = (if s \<noteq> [] then Some s else None)"

subsection \<open>plot_histogram and plot_histogram_overlay\<close>

text \<open>\<open>image[:, :, slice_no]\<close> for a slice number that the branch lets through.\<close>

definition slice_z :: "'a volume \<Rightarrow> int \<Rightarrow> error + 'a list list" where
  "slice_z img k =
     (if 0 \<le> k \<and> nat k < length img then Inr (img ! nat k) else Inl IndexError)"

definition flatten2 :: "'a list list \<Rightarrow> 'a list" where
  "flatten2 sl = concat sl"

definition flatten3 :: "'a volume \<Rightarrow> 'a list" where
  "flatten3 img = concat (map concat img)"

definition plot_histogram ::
  "string \<Rightarrow> 'a volume \<Rightarrow> int \<Rightarrow> int \<Rightarrow> string \<Rightarrow> string \<Rightarrow> string \<Rightarrow>
   ('a, 'b) files \<Rightarrow> (error + unit) \<times> ('a, 'b) files" where
  "plot_histogram path img no_bins slice_no title xlabel ylabel fs =
     (case (if slice_no > -1 then map_sum id flatten2 (slice_z img slice_no)
            else Inr (flatten3 img)) of
        Inl e \<Rightarrow> (Inl e, fs)
      | Inr d \<Rightarrow>
          (Inr (), fs @ [(path, Histogram d no_bins (if_text title) (if_text xlabel)
                                   (if_text ylabel))]))"

definition plot_histogram_overlay ::
  "string \<Rightarrow> 'a volume \<Rightarrow> 'a volume \<Rightarrow> int \<Rightarrow> int \<Rightarrow> string \<Rightarrow> string \<Rightarrow> string \<Rightarrow>
   ('a, 'b) files \<Rightarrow> (error + unit) \<times> ('a, 'b) files" where
  "plot_histogram_overlay path image1 image2 no_bins slice_no title xlabel ylabel fs =
     (case (if slice_no > -1
            then (case slice_z image1 slice_no of
                    Inl e \<Rightarrow> Inl e
                  | Inr s1 \<Rightarrow>
                      (case slice_z image2 slice_no of
                         Inl e \<Rightarrow> Inl e
                       | Inr s2 \<Rightarrow> Inr (flatten2 s1, flatten2 s2)))
            else Inr (flatten3 image1, flatten3 image2)) of
        Inl e \<Rightarrow> (Inl e, fs)
      | Inr (d1, d2) \<Rightarrow>
          (Inr (), fs @ [(path, HistogramOverlay d1 d2 no_bins (if_text title)
                                   (if_text xlabel) (if_text ylabel))]))"

subsection \<open>plot_2d_segmentation\<close>

text \<open>
  The numpy steps of the mask computation, on the flat element lists: an elementwise
  comparison with the label, \<open>np.bitwise_and\<close>, the assignment \<open>mask[cond] = v\<close> and
  \<open>np.ma.masked_where\<close>.
\<close>

definition eq_label :: "'l ndarray \<Rightarrow> 'l \<Rightarrow> bool list" where
  "eq_label a l = map (\<lambda>x. x = l) (data a)"

definition ne_label :: "'l ndarray \<Rightarrow> 'l \<Rightarrow> bool list" where
  "ne_label a l = map (\<lambda>x. x \<noteq> l) (data a)"

definition bitwise_and :: "bool list \<Rightarrow> bool list \<Rightarrow> bool list" where
  "bitwise_and xs ys = map (\<lambda>(x, y). x \<and> y) (zip xs ys)"

definition assign_where :: "bool list \<Rightarrow> 'v \<Rightarrow> 'v ndarray \<Rightarrow> 'v ndarray" where
  "assign_where cond v m =
     m\<lparr>data := map (\<lambda>(c, x). if c then v else x) (zip cond (data m))\<rparr>"

definition np_zeros :: "nat list \<Rightarrow> nat ndarray" where
  "np_zeros sh = \<lparr>shape = sh, data = replicate (prod_list sh) 0\<rparr>"

definition masked_where :: "bool list \<Rightarrow> 'v ndarray \<Rightarrow> 'v option ndarray" where
  "masked_where cond m =
     \<lparr>shape = shape m,
      data = map (\<lambda>(c, x). if c then None else Some x) (zip cond (data m))\<rparr>"

text \<open>Lines 144 to 148 of the source: the mask and its masked view.\<close>

definition overlay_mask :: "'l ndarray \<Rightarrow> 'l ndarray \<Rightarrow> 'l \<Rightarrow> nat option ndarray" where
  "overlay_mask ground_truth segmentation label =
     (let mask0 = np_zeros (shape ground_truth);
          mask1 = assign_where (bitwise_and (eq_label ground_truth label)
                                            (ne_label segmentation label)) 1 mask0;
          mask2 = assign_where (bitwise_and (eq_label ground_truth label)
                                            (eq_label segmentation label)) 2 mask1;
          mask3 = assign_where (bitwise_and (ne_label ground_truth label)
                                            (eq_label segmentation label)) 3 mask2
      in masked_where (map (\<lambda>x. x = 0) (data mask3)) mask3)"

definition rgb_colours :: "(float \<times> float \<times> float) list" where
  "rgb_colours = [(1, 0, 0), (0, 1, 0), (0, 0, 1)]"

definition plot_2d_segmentation ::
  "string \<Rightarrow> 'b ndarray \<Rightarrow> 'l ndarray \<Rightarrow> 'l ndarray \<Rightarrow> float \<Rightarrow> 'l \<Rightarrow>
   ('a, 'b) files \<Rightarrow> (error + unit) \<times> ('a, 'b) files" where
  "plot_2d_segmentation path img ground_truth segmentation alpha label fs =
     (if \<not> (shape img = shape ground_truth \<and> shape ground_truth = shape segmentation)
      then (Inl (ValueError ''image, ground_truth, and segmentation must have equal shape''),
            fs)
      else if \<not> (ndim img = 2)
      then (Inl (ValueError ''only 2-dimensional images supported''), fs)
      else (Inr (),
            fs @ [(path, Segmentation img
                           (overlay_mask ground_truth segmentation label) alpha
                           rgb_colours)]))"

section \<open>miapy/filtering/registration.py\<close>

subsection \<open>The SimpleITK boundary\<close>

text \<open>
  SimpleITK is not part of the repository: its operations are parameters of the model,
  collected in the record \<open>sitk\<close> over an arbitrary type \<open>'img\<close> of image values and
  \<open>'tfm\<close> of transforms, and every theorem holds for any such library. Image objects
  live in a store, the list \<open>images\<close>; a reference to an image is its index. The
  procedural SimpleITK functions used here (\<open>Cast\<close>, \<open>Normalize\<close>, \<open>Resample\<close>) return
  a new image object each, so the model appends their result to the store. Transform
  objects live in a second store, \<open>transforms\<close>, because the engine updates the initial
  transform in place. The image functions are taken to accept what they are given: a
  failure inside them is not modelled.
\<close>

datatype pixel_id =
    sitkUInt8 | sitkInt8 | sitkUInt16 | sitkInt16 | sitkUInt32 | sitkInt32
  | sitkUInt64 | sitkInt64 | sitkFloat32 | sitkFloat64

datatype interpolator = sitkNearestNeighbor | sitkLinear | sitkBSpline

datatype sampling_strategy = NONE | REGULAR | RANDOM

datatype estimate_learning_rate = Never | Once | EachIteration

type_synonym handle = nat

text \<open>
  The four events of the engine. An iteration event carries what \<open>GetMetricValue()\<close>
  gives at that moment and the value to which the engine has just brought its transform
  object (\<open>inPlace=True\<close>).
\<close>

datatype 'tfm event =
    sitkStartEvent
  | sitkEndEvent
  | sitkMultiResolutionIterationEvent
  | sitkIterationEvent float 'tfm

text \<open>
  What one run of the engine's optimisation yields: the events it raises, in order, the
  transform it returns and the values its three getters give afterwards. The engine
  samples the voxels at random, so \<open>Optimize\<close> below stands for the run that takes place
  in the call at hand.
\<close>

record 'tfm run =
  events :: "'tfm event list"
  final_transform :: 'tfm
  metric_value :: float
  optimizer_iteration :: int
  stop_condition_description :: string

text \<open>
  The settings given to \<open>sitk.ImageRegistrationMethod\<close> by the constructor, one field
  for each argument of its setter calls. The setters take the number of histogram bins,
  the number of iterations and the shrink factors as unsigned 32-bit integers: the Python
  binding raises \<open>OverflowError\<close> for a number outside that range and \<open>TypeError\<close> for
  a list with an element outside it.
\<close>

definition is_uint32 :: "int \<Rightarrow> bool" where
  "is_uint32 n \<longleftrightarrow> 0 \<le> n \<and> n < 2 ^ 32"

record registration_settings =
  mattes_histogram_bins :: int
  metric_sampling_strategy :: sampling_strategy
  metric_sampling_percentage :: float
  interpolator_setting :: interpolator
  learningRate :: float
  numberOfIterations :: int
  convergenceMinimumValue :: float
  convergenceWindowSize :: int
  estimateLearningRate :: estimate_learning_rate
  optimizer_scales_from_physical_shift :: bool
  shrink_factors_per_level :: "int list"
  smoothing_sigmas_per_level :: "float list"
  smoothing_sigmas_in_physical_units :: bool

record ('img, 'tfm) sitk =
  Cast :: "'img \<Rightarrow> pixel_id \<Rightarrow> 'img"
  Normalize :: "'img \<Rightarrow> 'img"
  GetPixelIDValue :: "'img \<Rightarrow> pixel_id"
  CenteredTransformInitializer :: "'img \<Rightarrow> 'img \<Rightarrow> 'tfm"
  Resample :: "'img \<Rightarrow> 'img \<Rightarrow> 'tfm \<Rightarrow> interpolator \<Rightarrow> float \<Rightarrow> pixel_id \<Rightarrow> 'img"
  Optimize :: "registration_settings \<Rightarrow> 'tfm \<Rightarrow> 'img \<Rightarrow> 'img \<Rightarrow> 'tfm run"

subsection \<open>RegistrationPlotter\<close>

text \<open>
  The plotter's two lists, and the arguments its constructor binds into the callback of
  the iteration event: references to the two images and to the transform object, and the
  path. \<open>multires_iterations\<close> only ever receives results of \<open>len\<close>, so its elements
  are natural numbers.
\<close>

record plotter =
  metric_values :: "float list"
  multires_iterations :: "nat list"
  cb_fixed :: handle
  cb_image :: handle
  cb_transform :: handle
  cb_path :: string

text \<open>
  One diagnostic file: the two \<open>plt.plot\<close> calls (the curve, and the stars at the
  resolution changes) and the arguments of the slice composition. The picture itself is
  made by matplotlib and SimpleITK (lines 232 to 257 and \<open>_write_combined_image\<close>),
  whose calls are kept by their arguments only.
\<close>

record 'tfm progress_picture =
  curve :: "float list"
  stars :: "(nat \<times> float) list"
  shown_fixed :: handle
  shown_moving :: handle
  shown_transform :: 'tfm

type_synonym 'tfm progress_files = "(string \<times> 'tfm progress_picture) list"

definition RegistrationPlotter :: "handle \<Rightarrow> handle \<Rightarrow> handle \<Rightarrow> string \<Rightarrow> plotter" where
  "RegistrationPlotter fixed img transform path =
     \<lparr>metric_values = [], multires_iterations = [],
      cb_fixed = fixed, cb_image = img, cb_transform = transform, cb_path = path\<rparr>"

definition end_plot :: "plotter \<Rightarrow> plotter" where
  "end_plot self = self"

definition start_plot :: "plotter \<Rightarrow> plotter" where
  "start_plot self = self\<lparr>metric_values := [], multires_iterations := []\<rparr>"

definition update_multiresolution_iterations :: "plotter \<Rightarrow> plotter" where
  "update_multiresolution_iterations self =
     self\<lparr>multires_iterations := multires_iterations self @ [length (metric_values self)]\<rparr>"

text \<open>Python's \<open>str\<close> of a natural number and \<open>format(n, '03d')\<close>.\<close>

definition digit_char :: "nat \<Rightarrow> char" where
  "digit_char d = ''0123456789'' ! d"

fun str_nat :: "nat \<Rightarrow> string" where
  "str_nat n = (if n < 10 then [digit_char n]
                else str_nat (n div 10) @ [digit_char (n mod 10)])"

declare str_nat.simps [simp del]

definition format_03d :: "nat \<Rightarrow> string" where
  "format_03d n = replicate (3 - length (str_nat n)) (CHR ''0'') @ str_nat n"

text \<open>
  \<open>[self.metric_values[index] for index in self.multires_iterations]\<close>: an index past
  the end raises.
\<close>

definition values_at :: "'a list \<Rightarrow> nat list \<Rightarrow> error + 'a list" where
  "values_at xs is =
     (if list_all (\<lambda>i. i < length xs) is then Inr (map (\<lambda>i. xs ! i) is)
      else Inl IndexError)"

definition save_plot ::
  "plotter \<Rightarrow> float \<Rightarrow> 'tfm \<Rightarrow> 'tfm progress_files \<Rightarrow>
   (error + unit) \<times> plotter \<times> 'tfm progress_files" where
  "save_plot self mv transform fs =
     (let self1 = self\<lparr>metric_values := metric_values self @ [mv]\<rparr>
      in case values_at (metric_values self1) (multires_iterations self1) of
           Inl e \<Rightarrow> (Inl e, self1, fs)
         | Inr ys \<Rightarrow>
             (Inr (), self1,
              fs @ [(cb_path self1 @ format_03d (length (metric_values self1)) @ ''.png'',
                     \<lparr>curve = metric_values self1,
                      stars = zip (multires_iterations self1) ys,
                      shown_fixed = cb_fixed self1, shown_moving = cb_image self1,
                      shown_transform = transform\<rparr>)]))"

text \<open>
  The callback that \<open>AddCommand\<close> registered for each event. The transform in an
  iteration event given to \<open>on_event\<close> is the value that the callback finds in the
  transform object of its own plotter.
\<close>

fun on_event ::
  "'tfm event \<Rightarrow> plotter \<Rightarrow> 'tfm progress_files \<Rightarrow>
   (error + unit) \<times> plotter \<times> 'tfm progress_files" where
  "on_event sitkStartEvent self fs = (Inr (), start_plot self, fs)"
| "on_event sitkEndEvent self fs = (Inr (), end_plot self, fs)"
| "on_event sitkMultiResolutionIterationEvent self fs =
     (Inr (), update_multiresolution_iterations self, fs)"
| "on_event (sitkIterationEvent mv t) self fs = save_plot self mv t fs"

text \<open>One plotter receiving a sequence of events; an exception ends the sequence.\<close>

fun feed ::
  "'tfm event list \<Rightarrow> plotter \<Rightarrow> 'tfm progress_files \<Rightarrow>
   (error + unit) \<times> plotter \<times> 'tfm progress_files" where
  "feed [] self fs = (Inr (), self, fs)"
| "feed (ev # evs) self fs =
     (case on_event ev self fs of
        (Inl e, self1, fs1) \<Rightarrow> (Inl e, self1, fs1)
      | (Inr _, self1, fs1) \<Rightarrow> feed evs self1 fs1)"

subsection \<open>The engine object and its callbacks\<close>

text \<open>
  \<open>sitk.ImageRegistrationMethod\<close> as the filter holds it: the settings, the reference
  to the initial transform once set, and the plotters whose callbacks \<open>AddCommand\<close>
  registered, oldest first. Nothing in the source ever removes a command, so a plotter
  of an earlier call of \<open>execute\<close> is called again in a later one; it still refers to the
  images and the transform object of its own call.
\<close>

record registration_method =
  settings :: registration_settings
  initial_transform :: "handle option"
  commands :: "plotter list"

text \<open>
  An event as the callback of plotter \<open>p\<close> meets it, the transform objects being \<open>ts\<close>:
  the callback reads the transform object bound at the construction of \<open>p\<close>.
\<close>

fun seen_by :: "'tfm list \<Rightarrow> plotter \<Rightarrow> 'tfm event \<Rightarrow> 'tfm event" where
  "seen_by ts p (sitkIterationEvent mv t) = sitkIterationEvent mv (ts ! cb_transform p)"
| "seen_by ts p ev = ev"

text \<open>The engine raising one event: every registered plotter is called in turn.\<close>

fun invoke ::
  "'tfm event \<Rightarrow> 'tfm list \<Rightarrow> plotter list \<Rightarrow> 'tfm progress_files \<Rightarrow>
   (error + unit) \<times> plotter list \<times> 'tfm progress_files" where
  "invoke ev ts [] fs = (Inr (), [], fs)"
| "invoke ev ts (p # ps) fs =
     (case on_event (seen_by ts p ev) p fs of
        (Inl e, p1, fs1) \<Rightarrow> (Inl e, p1 # ps, fs1)
      | (Inr _, p1, fs1) \<Rightarrow>
          (case invoke ev ts ps fs1 of (r, ps1, fs2) \<Rightarrow> (r, p1 # ps1, fs2)))"

text \<open>
  The engine working on the transform object \<open>cur\<close>: before it raises an iteration
  event it has written the new estimate into that object.
\<close>

fun moved :: "handle \<Rightarrow> 'tfm list \<Rightarrow> 'tfm event \<Rightarrow> 'tfm list" where
  "moved cur ts (sitkIterationEvent mv t) = ts[cur := t]"
| "moved cur ts ev = ts"

fun fire ::
  "'tfm event list \<Rightarrow> handle \<Rightarrow> 'tfm list \<Rightarrow> plotter list \<Rightarrow> 'tfm progress_files \<Rightarrow>
   (error + unit) \<times> 'tfm list \<times> plotter list \<times> 'tfm progress_files" where
  "fire [] cur ts ps fs = (Inr (), ts, ps, fs)"
| "fire (ev # evs) cur ts ps fs =
     (case invoke ev (moved cur ts ev) ps fs of
        (Inl e, ps1, fs1) \<Rightarrow> (Inl e, moved cur ts ev, ps1, fs1)
      | (Inr _, ps1, fs1) \<Rightarrow> fire evs cur (moved cur ts ev) ps1 fs1)"

subsection \<open>RigidMultiModalRegistrationParams and RigidMultiModalRegistration\<close>

record RigidMultiModalRegistrationParams =
  fixed_image :: handle
  plot_directory_path :: string

text \<open>
  The filter object. \<open>verbose\<close> is an attribute of the base class \<open>IFilter\<close> of the
  module \<open>miapy.filtering.filter\<close>, which is not among the modelled modules: the
  constructor takes the value that \<open>super().__init__()\<close> leaves in it as its first
  argument.
\<close>

record RigidMultiModalRegistration =
  verbose :: bool
  number_of_histogram_bins :: int
  learning_rate :: float
  step_size :: float
  number_of_iterations :: int
  shrink_factors :: "int list"
  smoothing_sigmas :: "float list"
  registration :: registration_method

definition RigidMultiModalRegistration_init ::
  "bool \<Rightarrow> int \<Rightarrow> float \<Rightarrow> float \<Rightarrow> int \<Rightarrow> int list \<Rightarrow> float list \<Rightarrow>
   error + RigidMultiModalRegistration" where
  "RigidMultiModalRegistration_init base_verbose bins lr step iters shrink sigmas =
     (if length shrink \<noteq> length sigmas
      then Inl (ValueError ''shrink_factors and smoothing_sigmas need to be same length'')
      else if \<not> is_uint32 bins then Inl OverflowError
      else if \<not> is_uint32 iters then Inl OverflowError
      else if \<not> list_all is_uint32 shrink then Inl TypeError
      else Inr
        \<lparr>verbose = base_verbose,
         number_of_histogram_bins = bins,
         learning_rate = lr,
         step_size = step,
         number_of_iterations = iters,
         shrink_factors = shrink,
         smoothing_sigmas = sigmas,
         registration =
           \<lparr>settings =
              \<lparr>mattes_histogram_bins = bins,
               metric_sampling_strategy = RANDOM,
               metric_sampling_percentage = 1 / 10,
               interpolator_setting = sitkLinear,
               learningRate = lr,
               numberOfIterations = iters,
               convergenceMinimumValue = 1 / 1000000,
               convergenceWindowSize = 10,
               estimateLearningRate = Never,
               optimizer_scales_from_physical_shift = True,
               shrink_factors_per_level = shrink,
               smoothing_sigmas_per_level = sigmas,
               smoothing_sigmas_in_physical_units = True\<rparr>,
            initial_transform = None,
            commands = []\<rparr>\<rparr>)"

text \<open>
  The program state outside the filter object: the image objects, the transform
  objects, the parameter objects (\<open>params\<close> is passed by reference), what was printed
  and the diagnostic files written.
\<close>

datatype message =
    FinalMetricValue float
  | StoppingCondition string
  | DidNotConverge

record ('img, 'tfm) world =
  images :: "'img list"
  transforms :: "'tfm list"
  params_objs :: "RigidMultiModalRegistrationParams list"
  stdout :: "message list"
  written :: "'tfm progress_files"

definition new_image :: "'img \<Rightarrow> ('img, 'tfm) world \<Rightarrow> handle \<times> ('img, 'tfm) world" where
  "new_image v w = (length (images w), w\<lparr>images := images w @ [v]\<rparr>)"

definition new_transform :: "'tfm \<Rightarrow> ('img, 'tfm) world \<Rightarrow> handle \<times> ('img, 'tfm) world" where
  "new_transform t w = (length (transforms w), w\<lparr>transforms := transforms w @ [t]\<rparr>)"

text \<open>
  \<open>report\<close> is lines 141 to 146 of \<open>execute\<close>: \<open>FinalMetricValue v\<close> stands for the
  line \<open>RigidMultiModalRegistration: Final metric value: v\<close>, \<open>StoppingCondition d\<close> for
  \<open>Optimizer's stopping condition, d\<close> and \<open>DidNotConverge\<close> for
  \<open>RigidMultiModalRegistration: Optimizer terminated at number of iterations and did not
  converge!\<close>.
\<close>

definition report :: "RigidMultiModalRegistration \<Rightarrow> 'tfm run \<Rightarrow> message list" where
  "report self r =
     (if verbose self
      then [FinalMetricValue (metric_value r),
            StoppingCondition (stop_condition_description r)]
      else if number_of_iterations self = optimizer_iteration r then [DidNotConverge]
      else [])"

text \<open>
  After \<open>Execute\<close> the transform object of the call holds the final estimate, which is
  also the transform \<open>Execute\<close> returns.
\<close>

definition execute ::
  "('img, 'tfm) sitk \<Rightarrow> RigidMultiModalRegistration \<Rightarrow> handle \<Rightarrow> handle option \<Rightarrow>
   ('img, 'tfm) world \<Rightarrow>
   (error + handle) \<times> RigidMultiModalRegistration \<times> ('img, 'tfm) world" where
  "execute lib self img params w =
     (case params of
        None \<Rightarrow> (Inl (ValueError ''params is not defined''), self, w)
      | Some pr \<Rightarrow>
          (let prm = params_objs w ! pr;
               (cast_fixed, w1) =
                 new_image (Cast lib (images w ! fixed_image prm)
                                     (GetPixelIDValue lib (images w ! img))) w;
               (initial, w1a) =
                 new_transform (CenteredTransformInitializer lib (images w1 ! cast_fixed)
                                                                 (images w1 ! img)) w1;
               reg1 = (registration self)\<lparr>initial_transform := Some initial\<rparr>;
               (fixed_n, w2) = new_image (Normalize lib (images w1a ! fixed_image prm)) w1a;
               (image_n, w3) = new_image (Normalize lib (images w2 ! img)) w2;
               reg2 = (if plot_directory_path prm \<noteq> []
                       then reg1\<lparr>commands := commands reg1 @
                                    [RegistrationPlotter fixed_n image_n initial
                                       (plot_directory_path prm)]\<rparr>
                       else reg1);
               (fixed_f, w4) = new_image (Cast lib (images w3 ! fixed_n) sitkFloat32) w3;
               (image_f, w5) = new_image (Cast lib (images w4 ! image_n) sitkFloat32) w4;
               r = Optimize lib (settings reg2) (transforms w5 ! initial)
                                (images w5 ! fixed_f) (images w5 ! image_f);
               (outcome, ts, ps, fs) =
                 fire (events r) initial (transforms w5) (commands reg2) (written w5);
               self1 = self\<lparr>registration := reg2\<lparr>commands := ps\<rparr>\<rparr>
           in case outcome of
                Inl e \<Rightarrow> (Inl e, self1, w5\<lparr>transforms := ts, written := fs\<rparr>)
              | Inr _ \<Rightarrow>
                  (let w6 = w5\<lparr>transforms := ts[initial := final_transform r],
                                written := fs\<rparr>;
                       w7 = w6\<lparr>stdout := stdout w6 @ report self1 r\<rparr>;
                       (result, w8) =
                         new_image (Resample lib (images w7 ! image_n)
                                      (images w7 ! fixed_image prm) (final_transform r)
                                      sitkLinear 0
                                      (GetPixelIDValue lib (images w7 ! image_n))) w7
                   in (Inr result, self1, w8))))"

subsection \<open>Notions used in the statements\<close>

text \<open>
  The state of a plotter is in order when its markers are non-decreasing and none lies
  beyond the metric-value history.
\<close>

definition plotter_ok :: "plotter \<Rightarrow> bool" where
  "plotter_ok p \<longleftrightarrow>
     sorted (multires_iterations p) \<and>
     (\<forall>m \<in> set (multires_iterations p). m \<le> length (metric_values p))"

text \<open>The number of iteration events in a sequence of events.\<close>

fun iterations :: "'tfm event list \<Rightarrow> nat" where
  "iterations [] = 0"
| "iterations (sitkIterationEvent mv t # evs) = Suc (iterations evs)"
| "iterations (_ # evs) = iterations evs"

text \<open>Reading a string of decimal digits back as a number.\<close>

definition digit_value :: "char \<Rightarrow> nat" where
  "digit_value c = of_char c - 48"

definition decimal_value :: "string \<Rightarrow> nat" where
  "decimal_value s = foldl (\<lambda>a c. 10 * a + digit_value c) 0 s"

text \<open>
  The engine run that \<open>execute\<close> starts for a moving image \<open>m\<close> and a fixed image \<open>f\<close>
  (lines 126 to 139 of the source): the initial transform from the fixed image cast to
  the moving image's pixel type, and the two normalised images cast to 32-bit floats.
\<close>

definition the_run ::
  "('img, 'tfm) sitk \<Rightarrow> RigidMultiModalRegistration \<Rightarrow> 'img \<Rightarrow> 'img \<Rightarrow> 'tfm run" where
  "the_run lib self m f =
     Optimize lib (settings (registration self))
       (CenteredTransformInitializer lib (Cast lib f (GetPixelIDValue lib m)) m)
       (Cast lib (Normalize lib f) sitkFloat32)
       (Cast lib (Normalize lib m) sitkFloat32)"

subsection \<open>A library to run the model on\<close>

text \<open>
  For concrete runs of \<open>execute\<close>: a stand-in for SimpleITK in which an image is the
  expression that made it. \<open>Normalize\<close> yields a 64-bit float image, \<open>Cast\<close> and
  \<open>Resample\<close> an image of the pixel type asked for, and every optimisation runs two
  resolution levels of two iterations each.
\<close>

datatype sym_image =
    Source nat pixel_id
  | CastOf sym_image pixel_id
  | NormalizeOf sym_image
  | ResampleOf sym_image sym_image sym_transform interpolator float pixel_id
and sym_transform =
    Centered sym_image sym_image
  | Estimate nat sym_transform

fun sym_pixel_id :: "sym_image \<Rightarrow> pixel_id" where
  "sym_pixel_id (Source n p) = p"
| "sym_pixel_id (CastOf i p) = p"
| "sym_pixel_id (NormalizeOf i) = sitkFloat64"
| "sym_pixel_id (ResampleOf i r t ip d p) = p"

definition sym_optimize ::
  "registration_settings \<Rightarrow> sym_transform \<Rightarrow> sym_image \<Rightarrow> sym_image \<Rightarrow> sym_transform run" where
  "sym_optimize s t f m =
     \<lparr>events = [sitkStartEvent, sitkMultiResolutionIterationEvent,
                sitkIterationEvent (- 1 / 2) (Estimate 1 t),
                sitkIterationEvent (- 3 / 4) (Estimate 2 t),
                sitkMultiResolutionIterationEvent,
                sitkIterationEvent (- 7 / 8) (Estimate 3 t),
                sitkIterationEvent (- 15 / 16) (Estimate 4 t),
                sitkEndEvent],
      final_transform = Estimate 4 t,
      metric_value = - 15 / 16,
      optimizer_iteration = 2,
      stop_condition_description = ''Maximum number of iterations (2) exceeded.''\<rparr>"

definition sym_lib :: "(sym_image, sym_transform) sitk" where
  "sym_lib =
     \<lparr>Cast = CastOf, Normalize = NormalizeOf, GetPixelIDValue = sym_pixel_id,
      CenteredTransformInitializer = Centered, Resample = ResampleOf,
      Optimize = sym_optimize\<rparr>"

text \<open>
  A filter as the constructor makes it with two iterations at most, a world with a moving
  image (object 0, 8-bit) and a fixed image (object 1, 16-bit), and a parameter object
  that asks for plots.
\<close>

definition filter0 :: RigidMultiModalRegistration where
  "filter0 =
     \<lparr>verbose = False, number_of_histogram_bins = 200, learning_rate = 1,
      step_size = 1 / 1000, number_of_iterations = 2, shrink_factors = [4, 2, 1],
      smoothing_sigmas = [2, 1, 0],
      registration =
        \<lparr>settings =
           \<lparr>mattes_histogram_bins = 200, metric_sampling_strategy = RANDOM,
            metric_sampling_percentage = 1 / 10, interpolator_setting = sitkLinear,
            learningRate = 1, numberOfIterations = 2,
            convergenceMinimumValue = 1 / 1000000, convergenceWindowSize = 10,
            estimateLearningRate = Never, optimizer_scales_from_physical_shift = True,
            shrink_factors_per_level = [4, 2, 1], smoothing_sigmas_per_level = [2, 1, 0],
            smoothing_sigmas_in_physical_units = True\<rparr>,
         initial_transform = None, commands = []\<rparr>\<rparr>"

definition world0 :: "(sym_image, sym_transform) world" where
  "world0 =
     \<lparr>images = [Source 0 sitkUInt8, Source 1 sitkUInt16],
      transforms = [],
      params_objs = [\<lparr>fixed_image = 1, plot_directory_path = ''out/''\<rparr>],
      stdout = [], written = []\<rparr>"

text \<open>
  The events of such a run after its start event, a plotter as \<open>execute\<close> attaches it,
  and a plotter whose lists are out of order before the run starts.
\<close>

definition demo_events :: "sym_transform event list" where
  "demo_events =
     tl (events (sym_optimize (settings (registration filter0))
                   (Centered (Source 1 sitkUInt8) (Source 0 sitkUInt8))
                   (Source 1 sitkFloat32) (Source 0 sitkFloat32)))"

definition plotter0 :: plotter where
  "plotter0 = RegistrationPlotter 3 4 0 ''out/''"

definition stale_plotter :: plotter where
  "stale_plotter = plotter0\<lparr>metric_values := [1], multires_iterations := [7, 5]\<rparr>"

text \<open>Small arrays and a small volume for the plotting helpers.\<close>

definition gt0 :: "int ndarray" where
  "gt0 = \<lparr>shape = [2, 2], data = [1, 1, 0, 0]\<rparr>"

definition seg0 :: "int ndarray" where
  "seg0 = \<lparr>shape = [2, 2], data = [0, 1, 1, 0]\<rparr>"

definition zeros_of :: "nat list \<Rightarrow> int ndarray" where
  "zeros_of sh = \<lparr>shape = sh, data = replicate (prod_list sh) 0\<rparr>"

definition volume0 :: "int volume" where
  "volume0 = [[[1, 2], [3, 4]], [[5, 6], [7, 8]]]"

section \<open>Properties of the plotting helpers\<close>

lemma overlay_mask_nth:
  assumes "wf_ndarray ground_truth" "length (data ground_truth) = length (data segmentation)"
    "i < length (data ground_truth)"
  shows "data (overlay_mask ground_truth segmentation label) ! i =
     (if data segmentation ! i = label
      then (if data ground_truth ! i = label then Some 2 else Some 3)
      else (if data ground_truth ! i = label then Some 1 else None))"
  using assms
  by (simp add: overlay_mask_def Let_def masked_where_def assign_where_def bitwise_and_def
      eq_label_def ne_label_def np_zeros_def wf_ndarray_def)

text \<open>
  C8. \<open>plot_2d_segmentation\<close> raises a \<open>ValueError\<close> and leaves the file log as it was
  whenever the three shapes are not all equal or the image is not 2-dimensional: both
  checks come before the mask is computed and before anything is drawn.
\<close>

theorem plot_2d_segmentation_rejects:
  assumes "\<not> (shape img = shape ground_truth \<and> shape ground_truth = shape segmentation) \<or>
           ndim img \<noteq> 2"
  shows "\<exists>msg. plot_2d_segmentation path img ground_truth segmentation alpha label fs =
           (Inl (ValueError msg), fs)"
  using assms by (auto simp: plot_2d_segmentation_def)

theorem plot_2d_segmentation_rejects_witness:
  "shape (zeros_of [10, 15]) \<noteq> shape (zeros_of [10, 16]) \<and>
   plot_2d_segmentation ''seg.png'' (zeros_of [10, 15]) (zeros_of [10, 16])
       (zeros_of [10, 15]) (1 / 2) 1 ([] :: (int, int) files) =
     (Inl (ValueError ''image, ground_truth, and segmentation must have equal shape''), []) \<and>
   ndim (zeros_of [10, 15, 3]) \<noteq> 2 \<and>
   plot_2d_segmentation ''seg.png'' (zeros_of [10, 15, 3]) (zeros_of [10, 15, 3])
       (zeros_of [10, 15, 3]) (1 / 2) 1 ([] :: (int, int) files) =
     (Inl (ValueError ''only 2-dimensional images supported''), [])"
proof -
  have h1: "\<not> (shape (zeros_of [10, 15]) = shape (zeros_of [10, 16]) \<and>
               shape (zeros_of [10, 16]) = shape (zeros_of [10, 15])) \<or>
            ndim (zeros_of [10, 15]) \<noteq> 2"
    by (simp add: zeros_of_def)
  have h2: "\<not> (shape (zeros_of [10, 15, 3]) = shape (zeros_of [10, 15, 3]) \<and>
               shape (zeros_of [10, 15, 3]) = shape (zeros_of [10, 15, 3])) \<or>
            ndim (zeros_of [10, 15, 3]) \<noteq> 2"
    by (simp add: zeros_of_def ndim_def)
  show ?thesis
    using h1 h2
      plot_2d_segmentation_rejects [OF h1, of "''seg.png''" "1 / 2" 1 "[] :: (int, int) files"]
      plot_2d_segmentation_rejects [OF h2, of "''seg.png''" "1 / 2" 1 "[] :: (int, int) files"]
    by (simp add: plot_2d_segmentation_def zeros_of_def ndim_def)
qed

text \<open>
  C9. In \<open>plot_2d_segmentation\<close> the overlay that is drawn is \<open>overlay_mask\<close>, and at
  every position its value is fixed by comparing the ground truth and the segmentation
  with the label: 1 (under-segmentation) where only the ground truth has the label, 2
  (correct) where both have it, 3 (over-segmentation) where only the segmentation has
  it, and masked, hence transparent, where neither has it. The four cases exclude each
  other and leave no fifth. The colour list handed to matplotlib is red, green, blue, in
  the order of the values 1, 2, 3.
\<close>

theorem overlay_mask_classification:
  assumes "wf_ndarray ground_truth" and "wf_ndarray segmentation"
    and "shape ground_truth = shape segmentation" and "i < length (data ground_truth)"
  shows "(data (overlay_mask ground_truth segmentation label) ! i = Some 1 \<longleftrightarrow>
            data ground_truth ! i = label \<and> data segmentation ! i \<noteq> label) \<and>
         (data (overlay_mask ground_truth segmentation label) ! i = Some 2 \<longleftrightarrow>
            data ground_truth ! i = label \<and> data segmentation ! i = label) \<and>
         (data (overlay_mask ground_truth segmentation label) ! i = Some 3 \<longleftrightarrow>
            data ground_truth ! i \<noteq> label \<and> data segmentation ! i = label) \<and>
         (data (overlay_mask ground_truth segmentation label) ! i = None \<longleftrightarrow>
            data ground_truth ! i \<noteq> label \<and> data segmentation ! i \<noteq> label) \<and>
         (shape img = shape ground_truth \<and> ndim img = 2 \<longrightarrow>
            plot_2d_segmentation path img ground_truth segmentation alpha label fs =
              (Inr (), fs @ [(path, Segmentation img
                                      (overlay_mask ground_truth segmentation label) alpha
                                      [(1, 0, 0), (0, 1, 0), (0, 0, 1)])]))"
proof -
  have len: "length (data ground_truth) = length (data segmentation)"
    using assms(1-3) by (simp add: wf_ndarray_def)
  show ?thesis
    using assms(3)
    by (simp add: overlay_mask_nth [OF assms(1) len assms(4)] plot_2d_segmentation_def
        rgb_colours_def)
qed

theorem overlay_mask_classification_witness:
  "wf_ndarray gt0 \<and> wf_ndarray seg0 \<and> shape gt0 = shape seg0 \<and> 0 < length (data gt0) \<and>
   data gt0 ! 0 = 1 \<and> data seg0 ! 0 \<noteq> 1 \<and>
   data (overlay_mask gt0 seg0 1) ! 0 = Some 1"
proof -
  have h1: "wf_ndarray gt0" and h2: "wf_ndarray seg0" and h3: "shape gt0 = shape seg0"
    and h4: "0 < length (data gt0)"
    by (simp_all add: wf_ndarray_def gt0_def seg0_def)
  have v: "data gt0 ! 0 = 1" "data seg0 ! 0 \<noteq> 1"
    by (simp_all add: gt0_def seg0_def)
  show ?thesis
    using h1 h2 h3 h4 v
      overlay_mask_classification [OF h1 h2 h3 h4, where label = 1 and img = gt0
        and path = "''seg.png''" and alpha = "1 / 2" and fs = "[] :: (int, int) files"]
    by simp
qed

text \<open>
  C10. In \<open>plot_histogram\<close> and \<open>plot_histogram_overlay\<close> the slice is taken exactly when
  \<open>slice_no > -1\<close>. For every \<open>slice_no \<le> -1\<close>, not only for -1, the histogram is
  that of the whole image: nothing is raised and nothing is indexed from the end.
\<close>

theorem histogram_slice_branch:
  "(slice_no \<le> -1 \<longrightarrow>
      plot_histogram path img no_bins slice_no title xlabel ylabel fs =
        (Inr (), fs @ [(path, Histogram (flatten3 img) no_bins (if_text title)
                                (if_text xlabel) (if_text ylabel))]) \<and>
      plot_histogram_overlay path image1 image2 no_bins slice_no title xlabel ylabel fs =
        (Inr (), fs @ [(path, HistogramOverlay (flatten3 image1) (flatten3 image2) no_bins
                                (if_text title) (if_text xlabel) (if_text ylabel))])) \<and>
   (slice_no > -1 \<longrightarrow>
      plot_histogram path img no_bins slice_no title xlabel ylabel fs =
        (case slice_z img slice_no of
           Inl e \<Rightarrow> (Inl e, fs)
         | Inr sl \<Rightarrow>
             (Inr (), fs @ [(path, Histogram (flatten2 sl) no_bins (if_text title)
                                     (if_text xlabel) (if_text ylabel))])) \<and>
      plot_histogram_overlay path image1 image2 no_bins slice_no title xlabel ylabel fs =
        (case slice_z image1 slice_no of
           Inl e \<Rightarrow> (Inl e, fs)
         | Inr s1 \<Rightarrow>
             (case slice_z image2 slice_no of
                Inl e \<Rightarrow> (Inl e, fs)
              | Inr s2 \<Rightarrow>
                  (Inr (), fs @ [(path, HistogramOverlay (flatten2 s1) (flatten2 s2) no_bins
                                          (if_text title) (if_text xlabel)
                                          (if_text ylabel))]))))"
  by (auto simp: plot_histogram_def plot_histogram_overlay_def split: sum.splits)

theorem histogram_slice_branch_witness:
  "(- 7 :: int) \<le> -1 \<and>
   plot_histogram ''h.png'' volume0 255 (- 7) ''t'' [] [] ([] :: (int, int) files) =
     (Inr (), [(''h.png'', Histogram [1, 2, 3, 4, 5, 6, 7, 8] 255 (Some ''t'') None None)]) \<and>
   (1 :: int) > -1 \<and>
   plot_histogram ''h.png'' volume0 255 1 ''t'' [] [] ([] :: (int, int) files) =
     (Inr (), [(''h.png'', Histogram [5, 6, 7, 8] 255 (Some ''t'') None None)])"
  using
    histogram_slice_branch [of "- 7" "''h.png''" volume0 255 "''t''" "[]" "[]"
      "[] :: (int, int) files" volume0 volume0]
    histogram_slice_branch [of 1 "''h.png''" volume0 255 "''t''" "[]" "[]"
      "[] :: (int, int) files" volume0 volume0]
  by (simp add: volume0_def flatten3_def flatten2_def slice_z_def if_text_def)

section \<open>Properties of the registration plotter\<close>

text \<open>
  A plotter whose lists are in order never meets an index past the end in the iteration
  callback, and every callback leaves the lists in order: for one plotter, and for all
  the plotters registered with the engine.
\<close>

lemma values_at_ok:
  "\<forall>i \<in> set is. i < length xs \<Longrightarrow> values_at xs is = Inr (map (\<lambda>i. xs ! i) is)"
  by (simp add: values_at_def list_all_iff)

lemma save_plot_ok:
  assumes "plotter_ok p"
  shows "save_plot p mv t fs =
     (Inr (), p\<lparr>metric_values := metric_values p @ [mv]\<rparr>,
      fs @ [(cb_path p @ format_03d (Suc (length (metric_values p))) @ ''.png'',
             \<lparr>curve = metric_values p @ [mv],
              stars = zip (multires_iterations p)
                        (map (\<lambda>i. (metric_values p @ [mv]) ! i) (multires_iterations p)),
              shown_fixed = cb_fixed p, shown_moving = cb_image p,
              shown_transform = t\<rparr>)])"
proof -
  have "\<forall>i \<in> set (multires_iterations p). i < length (metric_values p @ [mv])"
    using assms by (auto simp: plotter_ok_def less_Suc_eq_le)
  then show ?thesis
    by (simp add: save_plot_def Let_def values_at_ok)
qed

lemma on_event_ok:
  assumes "plotter_ok p"
  shows "fst (on_event ev p fs) = Inr () \<and> plotter_ok (fst (snd (on_event ev p fs)))"
proof (cases ev)
  case sitkStartEvent
  then show ?thesis by (simp add: start_plot_def plotter_ok_def)
next
  case sitkEndEvent
  then show ?thesis using assms by (simp add: end_plot_def)
next
  case sitkMultiResolutionIterationEvent
  then show ?thesis using assms
    by (auto simp: update_multiresolution_iterations_def plotter_ok_def sorted_append)
next
  case (sitkIterationEvent mv t)
  then show ?thesis using assms
    by (auto simp: save_plot_ok plotter_ok_def)
qed

lemma invoke_ok:
  "list_all plotter_ok ps \<Longrightarrow>
   fst (invoke ev ts ps fs) = Inr () \<and> list_all plotter_ok (fst (snd (invoke ev ts ps fs)))"
proof (induction ps arbitrary: fs)
  case Nil
  then show ?case by simp
next
  case (Cons p ps)
  obtain r p1 fs1 where o: "on_event (seen_by ts p ev) p fs = (r, p1, fs1)"
    by (cases "on_event (seen_by ts p ev) p fs") auto
  from Cons.prems have "plotter_ok p" "list_all plotter_ok ps" by simp_all
  with on_event_ok [of p "seen_by ts p ev" fs] o have r: "r = Inr ()" and p1: "plotter_ok p1"
    by simp_all
  obtain r2 ps2 fs2 where i: "invoke ev ts ps fs1 = (r2, ps2, fs2)"
    by (cases "invoke ev ts ps fs1") auto
  with Cons.IH [OF \<open>list_all plotter_ok ps\<close>, of fs1]
  have "r2 = Inr ()" "list_all plotter_ok ps2" by simp_all
  with o r p1 i show ?case by simp
qed

lemma fire_ok:
  "list_all plotter_ok ps \<Longrightarrow>
   fst (fire evs cur ts ps fs) = Inr () \<and>
   list_all plotter_ok (fst (snd (snd (fire evs cur ts ps fs))))"
proof (induction evs arbitrary: ts ps fs)
  case Nil
  then show ?case by simp
next
  case (Cons ev evs)
  obtain r ps1 fs1 where i: "invoke ev (moved cur ts ev) ps fs = (r, ps1, fs1)"
    by (cases "invoke ev (moved cur ts ev) ps fs") auto
  with invoke_ok [OF Cons.prems, of ev "moved cur ts ev" fs]
  have "r = Inr ()" "list_all plotter_ok ps1"
    by simp_all
  with Cons.IH [of ps1 "moved cur ts ev" fs1] i show ?case by simp
qed

lemma RegistrationPlotter_ok: "plotter_ok (RegistrationPlotter f m t path)"
  by (simp add: RegistrationPlotter_def plotter_ok_def)

text \<open>
  An engine whose only plotter was made for the call at hand is that plotter fed with
  the engine's events: the transform it reads is the one the engine has just written.
\<close>

lemma on_event_cb_transform: "cb_transform (fst (snd (on_event ev p fs))) = cb_transform p"
  by (cases ev)
    (simp_all add: start_plot_def end_plot_def update_multiresolution_iterations_def
      save_plot_def Let_def split: sum.splits)

lemma seen_by_own:
  "cb_transform p < length ts \<Longrightarrow> seen_by (moved (cb_transform p) ts ev) p ev = ev"
  by (cases ev) simp_all

lemma length_moved: "length (moved cur ts ev) = length ts"
  by (cases ev) simp_all

lemma fire_single:
  "cb_transform p < length ts \<Longrightarrow>
   (case fire evs (cb_transform p) ts [p] fs of (r, ts1, ps1, fs1) \<Rightarrow> (r, ps1, fs1)) =
   (case feed evs p fs of (r, p1, fs1) \<Rightarrow> (r, [p1], fs1))"
proof (induction evs arbitrary: p ts fs)
  case Nil
  then show ?case by simp
next
  case (Cons ev evs)
  obtain r p1 fs1 where o: "on_event ev p fs = (r, p1, fs1)"
    by (cases "on_event ev p fs") auto
  with on_event_cb_transform [of ev p fs] have c: "cb_transform p1 = cb_transform p"
    by simp
  from Cons.prems have s: "seen_by (moved (cb_transform p) ts ev) p ev = ev"
    by (rule seen_by_own)
  show ?case
  proof (cases r)
    case (Inl e)
    with o s show ?thesis by simp
  next
    case (Inr u)
    from Cons.prems have "cb_transform p1 < length (moved (cb_transform p) ts ev)"
      by (simp add: c length_moved)
    from Cons.IH [OF this, of fs1] o s Inr c show ?thesis
      by simp
  qed
qed

lemma feed_ok:
  "plotter_ok p \<Longrightarrow>
   fst (feed evs p fs) = Inr () \<and> plotter_ok (fst (snd (feed evs p fs)))"
proof (induction evs arbitrary: p fs)
  case Nil
  then show ?case by simp
next
  case (Cons ev evs)
  obtain r p1 fs1 where o: "on_event ev p fs = (r, p1, fs1)"
    by (cases "on_event ev p fs") auto
  with on_event_ok [OF Cons.prems, of ev fs] have "r = Inr ()" "plotter_ok p1" by simp_all
  with Cons.IH [of p1 fs1] o show ?case by simp
qed

lemma start_plot_ok: "plotter_ok (start_plot p)"
  by (simp add: start_plot_def plotter_ok_def)

text \<open>The files of a run without a further start event, from any state in order.\<close>

lemma feed_names:
  "plotter_ok p \<Longrightarrow> sitkStartEvent \<notin> set evs \<Longrightarrow>
   map fst (snd (snd (feed evs p fs))) =
     map fst fs @ map (\<lambda>k. cb_path p @ format_03d k @ ''.png'')
       [Suc (length (metric_values p)) ..< Suc (length (metric_values p) + iterations evs)]
   \<and> length (metric_values (fst (snd (feed evs p fs)))) =
       length (metric_values p) + iterations evs
   \<and> cb_path (fst (snd (feed evs p fs))) = cb_path p"
proof (induction evs arbitrary: p fs)
  case Nil
  then show ?case by simp
next
  case (Cons ev evs)
  obtain r p1 fs1 where o: "on_event ev p fs = (r, p1, fs1)"
    by (cases "on_event ev p fs") auto
  with on_event_ok [OF Cons.prems(1), of ev fs]
  have r: "r = Inr ()" and ok: "plotter_ok p1"
    by simp_all
  from Cons.prems(2) have ns: "sitkStartEvent \<notin> set evs" and ne: "ev \<noteq> sitkStartEvent"
    by auto
  note IH = Cons.IH [OF ok ns, of fs1]
  show ?case
  proof (cases ev)
    case sitkStartEvent
    with ne show ?thesis by simp
  next
    case sitkEndEvent
    with o have "p1 = p" "fs1 = fs" by (simp_all add: end_plot_def)
    with IH o r sitkEndEvent show ?thesis by simp
  next
    case sitkMultiResolutionIterationEvent
    with o have "metric_values p1 = metric_values p" "cb_path p1 = cb_path p" "fs1 = fs"
      by (auto simp: update_multiresolution_iterations_def)
    with IH o r sitkMultiResolutionIterationEvent show ?thesis by simp
  next
    case (sitkIterationEvent mv t)
    with o save_plot_ok [OF Cons.prems(1), of mv t fs]
    have "metric_values p1 = metric_values p @ [mv]" "cb_path p1 = cb_path p"
      "map fst fs1 =
         map fst fs @ [cb_path p @ format_03d (Suc (length (metric_values p))) @ ''.png'']"
      by auto
    moreover have "[Suc (length (metric_values p)) ..<
                    Suc (length (metric_values p) + Suc (iterations evs))] =
                   Suc (length (metric_values p)) #
                   [Suc (Suc (length (metric_values p))) ..<
                    Suc (Suc (length (metric_values p)) + iterations evs)]"
      by (simp add: upt_conv_Cons)
    ultimately show ?thesis using IH o r sitkIterationEvent
      by simp
  qed
qed

text \<open>\<open>format_03d\<close>: its length, its digits and the number they spell.\<close>

lemma str_nat_small: "n < 10 \<Longrightarrow> str_nat n = [digit_char n]"
  by (simp add: str_nat.simps)

lemma length_str_nat_pos: "0 < length (str_nat n)"
  by (subst str_nat.simps) simp

lemma length_str_nat_100: "n < 100 \<Longrightarrow> length (str_nat n) \<le> 2"
  by (subst str_nat.simps) (simp add: str_nat_small)

lemma length_str_nat_1000: "n < 1000 \<Longrightarrow> length (str_nat n) \<le> 3"
  by (subst str_nat.simps) (use length_str_nat_100 [of "n div 10"] in auto)

lemma length_format_03d: "n < 1000 \<Longrightarrow> length (format_03d n) = 3"
  using length_str_nat_1000 [of n] by (simp add: format_03d_def)

lemma length_format_03d_ge: "3 \<le> length (format_03d n)"
  by (simp add: format_03d_def)

lemma format_03d_1000: "format_03d 1000 = ''1000''"
  by (simp add: format_03d_def str_nat.simps digit_char_def)

lemma digit_value_digit_char:
  assumes "d < 10"
  shows "digit_value (digit_char d) = d"
proof -
  from assms have "d = 0 \<or> d = 1 \<or> d = 2 \<or> d = 3 \<or> d = 4 \<or> d = 5 \<or> d = 6 \<or> d = 7 \<or>
    d = 8 \<or> d = 9"
    by arith
  then show ?thesis
    by (elim disjE) (simp_all add: digit_value_def digit_char_def)
qed

lemma decimal_value_snoc:
  "decimal_value (s @ [c]) = 10 * decimal_value s + digit_value c"
  by (simp add: decimal_value_def)

lemma decimal_value_str_nat: "decimal_value (str_nat n) = n"
proof (induction n rule: str_nat.induct)
  case (1 n)
  show ?case
  proof (cases "n < 10")
    case True
    then show ?thesis
      by (subst str_nat.simps) (simp add: decimal_value_def digit_value_digit_char)
  next
    case False
    with 1 have "decimal_value (str_nat (n div 10)) = n div 10" by simp
    with False show ?thesis
      by (subst str_nat.simps) (simp add: decimal_value_snoc digit_value_digit_char)
  qed
qed

lemma decimal_value_zeros:
  "decimal_value (replicate k (CHR ''0'') @ s) = decimal_value s"
proof -
  have z: "foldl (\<lambda>a c. 10 * a + digit_value c) 0 (replicate k (CHR ''0'')) = 0"
    by (induction k) (simp_all add: digit_value_def)
  show ?thesis
    by (simp add: decimal_value_def z)
qed

lemma decimal_value_format_03d: "decimal_value (format_03d n) = n"
  by (simp add: format_03d_def decimal_value_zeros decimal_value_str_nat)

lemma digit_char_digit: "d < 10 \<Longrightarrow> digit_char d \<in> set ''0123456789''"
  unfolding digit_char_def by (rule nth_mem) simp

lemma str_nat_digits: "set (str_nat n) \<subseteq> set ''0123456789''"
proof (induction n rule: str_nat.induct)
  case (1 n)
  show ?case
  proof (cases "n < 10")
    case True
    then show ?thesis
      using digit_char_digit [of n] by (subst str_nat.simps) simp
  next
    case False
    with 1 have "set (str_nat (n div 10)) \<subseteq> set ''0123456789''" by simp
    with False show ?thesis
      using digit_char_digit [of "n mod 10"] by (subst str_nat.simps) simp
  qed
qed

lemma format_03d_digits: "set (format_03d n) \<subseteq> set ''0123456789''"
  using str_nat_digits [of n] by (auto simp: format_03d_def)

lemma format_03d_eval:
  "format_03d (Suc 0) = ''001''" "format_03d 1 = ''001''" "format_03d 2 = ''002''"
  "format_03d 3 = ''003''" "format_03d 4 = ''004''"
  by (simp_all add: format_03d_def str_nat.simps digit_char_def numeral_2_eq_2)

text \<open>
  C6. The run-start handler empties both lists, and the resolution-change handler appends
  the current length of the metric-value history to the markers. Hence after a run-start
  and any further events, whatever the lists held before, the markers are in
  non-decreasing order and none exceeds the length of the metric-value history.
\<close>

theorem plotter_marker_invariant:
  "metric_values (start_plot p) = [] \<and> multires_iterations (start_plot p) = [] \<and>
   multires_iterations (update_multiresolution_iterations p) =
     multires_iterations p @ [length (metric_values p)] \<and>
   sorted (multires_iterations (fst (snd (feed (sitkStartEvent # evs) p fs)))) \<and>
   (\<forall>m \<in> set (multires_iterations (fst (snd (feed (sitkStartEvent # evs) p fs)))).
      m \<le> length (metric_values (fst (snd (feed (sitkStartEvent # evs) p fs)))))"
  using feed_ok [OF start_plot_ok, of evs p fs]
  by (simp add: start_plot_def update_multiresolution_iterations_def plotter_ok_def)

theorem plotter_marker_invariant_witness:
  "multires_iterations
     (fst (snd (feed (sitkStartEvent # demo_events) stale_plotter []))) = [0, 2] \<and>
   length (metric_values
     (fst (snd (feed (sitkStartEvent # demo_events) stale_plotter [])))) = 4 \<and>
   2 \<in> set (multires_iterations
     (fst (snd (feed (sitkStartEvent # demo_events) stale_plotter [])))) \<and>
   sorted (multires_iterations
     (fst (snd (feed (sitkStartEvent # demo_events) stale_plotter []))))"
  using plotter_marker_invariant [of stale_plotter demo_events "[]"]
  by (simp add: demo_events_def sym_optimize_def stale_plotter_def plotter0_def
      RegistrationPlotter_def save_plot_def values_at_def start_plot_def end_plot_def
      update_multiresolution_iterations_def Let_def)

text \<open>
  C7. After a run-start, the k-th iteration event writes its picture to the file whose
  name is the plot directory path, then \<open>format(k, '03d')\<close>, then \<open>.png\<close>: the files of a
  run with n iteration events are numbered 1 to n in order, and no handler raises. The
  number is written in decimal digits and padded with zeros to three digits; from 1000
  on it has as many digits as it needs.
\<close>

theorem save_plot_file_names:
  assumes "sitkStartEvent \<notin> set evs"
  shows "fst (feed (sitkStartEvent # evs) p fs) = Inr () \<and>
         map fst (snd (snd (feed (sitkStartEvent # evs) p fs))) =
           map fst fs @ map (\<lambda>k. cb_path p @ format_03d k @ ''.png'')
                            [1 ..< Suc (iterations evs)] \<and>
         (\<forall>k. decimal_value (format_03d k) = k \<and> set (format_03d k) \<subseteq> set ''0123456789'' \<and>
              3 \<le> length (format_03d k) \<and> (k < 1000 \<longrightarrow> length (format_03d k) = 3))"
proof -
  have ok: "plotter_ok (start_plot p)"
    by (rule start_plot_ok)
  have a: "fst (feed (sitkStartEvent # evs) p fs) = Inr ()"
    using feed_ok [OF ok, of evs fs] by simp
  have b: "map fst (snd (snd (feed (sitkStartEvent # evs) p fs))) =
      map fst fs @ map (\<lambda>k. cb_path p @ format_03d k @ ''.png'') [1 ..< Suc (iterations evs)]"
    using feed_names [OF ok assms, of fs] by (simp add: start_plot_def)
  have c: "\<forall>k. decimal_value (format_03d k) = k \<and>
      set (format_03d k) \<subseteq> set ''0123456789'' \<and>
      3 \<le> length (format_03d k) \<and> (k < 1000 \<longrightarrow> length (format_03d k) = 3)"
    using decimal_value_format_03d format_03d_digits length_format_03d_ge length_format_03d
    by (intro allI conjI impI)
  from a b c show ?thesis
    by (intro conjI)
qed

theorem save_plot_file_names_witness:
  "sitkStartEvent \<notin> set demo_events \<and>
   fst (feed (sitkStartEvent # demo_events) stale_plotter []) = Inr () \<and>
   map fst (snd (snd (feed (sitkStartEvent # demo_events) stale_plotter []))) =
     [''out/001.png'', ''out/002.png'', ''out/003.png'', ''out/004.png'']"
proof -
  have h: "sitkStartEvent \<notin> set demo_events"
    by (simp add: demo_events_def sym_optimize_def)
  have i: "iterations demo_events = 4"
    by (simp add: demo_events_def sym_optimize_def)
  have u: "[Suc 0 ..< 5] = [1, 2, 3, 4]"
    by code_simp
  show ?thesis
    using h save_plot_file_names [OF h, of stale_plotter "[]"]
    by (simp add: i u format_03d_eval stale_plotter_def plotter0_def RegistrationPlotter_def)
qed

section \<open>Properties of the registration filter\<close>

text \<open>
  What \<open>execute\<close> does with a parameter object, for references that are valid and
  plotters whose lists are in order. A filter fresh from the constructor has no plotters,
  and the last conjunct hands the condition on to the next call.
\<close>

lemma execute_success:
  assumes v: "pr < length (params_objs w)" "img < length (images w)"
      "fixed_image (params_objs w ! pr) < length (images w)"
    and ok: "list_all plotter_ok (commands (registration self))"
  shows "\<exists>self' w' res.
     execute lib self img (Some pr) w = (Inr res, self', w') \<and>
     length (images w) \<le> res \<and> res < length (images w') \<and>
     images w' ! res =
       Resample lib (Normalize lib (images w ! img))
         (images w ! fixed_image (params_objs w ! pr))
         (final_transform
            (the_run lib self (images w ! img) (images w ! fixed_image (params_objs w ! pr))))
         sitkLinear 0 (GetPixelIDValue lib (Normalize lib (images w ! img))) \<and>
     stdout w' = stdout w @
       report self
         (the_run lib self (images w ! img) (images w ! fixed_image (params_objs w ! pr))) \<and>
     list_all plotter_ok (commands (registration self'))"
proof -
  let ?prm = "params_objs w ! pr"
  let ?m = "images w ! img"
  let ?f = "images w ! fixed_image ?prm"
  let ?evs = "events (the_run lib self ?m ?f)"
  let ?cur = "length (transforms w)"
  let ?ts = "transforms w @
               [CenteredTransformInitializer lib (Cast lib ?f (GetPixelIDValue lib ?m)) ?m]"
  show ?thesis
  proof (cases "plot_directory_path ?prm = []")
    case True
    let ?ps = "commands (registration self)"
    obtain r ts1 ps1 fs1 where f: "fire ?evs ?cur ?ts ?ps (written w) = (r, ts1, ps1, fs1)"
      by (cases "fire ?evs ?cur ?ts ?ps (written w)") auto
    with fire_ok [OF ok, of ?evs ?cur ?ts "written w"]
    have r: "r = Inr ()" "list_all plotter_ok ps1"
      by simp_all
    show ?thesis
      using v f [unfolded the_run_def] r True
      by (simp add: execute_def new_image_def new_transform_def Let_def nth_append
          the_run_def report_def)
  next
    case False
    let ?ps = "commands (registration self) @
                  [RegistrationPlotter (Suc (length (images w))) (Suc (Suc (length (images w))))
                     (length (transforms w)) (plot_directory_path ?prm)]"
    have ps: "list_all plotter_ok ?ps"
      using ok by (simp add: RegistrationPlotter_ok)
    obtain r ts1 ps1 fs1 where f: "fire ?evs ?cur ?ts ?ps (written w) = (r, ts1, ps1, fs1)"
      by (cases "fire ?evs ?cur ?ts ?ps (written w)") auto
    with fire_ok [OF ps, of ?evs ?cur ?ts "written w"]
    have r: "r = Inr ()" "list_all plotter_ok ps1"
      by simp_all
    show ?thesis
      using v f [unfolded the_run_def] r False
      by (simp add: execute_def new_image_def new_transform_def Let_def nth_append
          the_run_def report_def)
  qed
qed

text \<open>
  C2, as the code has it. The constructor raises a \<open>ValueError\<close> exactly when
  \<open>shrink_factors\<close> and \<open>smoothing_sigmas\<close> differ in length. For sequences of equal
  length it returns a filter that holds the six configuration values it was given when
  the number of histogram bins, the number of iterations and every shrink factor fit an
  unsigned 32-bit integer; when one of them does not, a setter of the engine raises
  \<open>OverflowError\<close> or \<open>TypeError\<close> and no filter is made.
\<close>

theorem init_value_error_iff_lengths_differ:
  "((\<exists>msg. RigidMultiModalRegistration_init v bins lr step iters shrink sigmas =
             Inl (ValueError msg))
      \<longleftrightarrow> length shrink \<noteq> length sigmas) \<and>
   (length shrink \<noteq> length sigmas \<longrightarrow>
      RigidMultiModalRegistration_init v bins lr step iters shrink sigmas =
        Inl (ValueError ''shrink_factors and smoothing_sigmas need to be same length'')) \<and>
   (length shrink = length sigmas \<and> is_uint32 bins \<and> is_uint32 iters \<and>
    list_all is_uint32 shrink \<longrightarrow>
      (\<exists>flt.
         RigidMultiModalRegistration_init v bins lr step iters shrink sigmas = Inr flt \<and>
         number_of_histogram_bins flt = bins \<and> learning_rate flt = lr \<and>
         step_size flt = step \<and> number_of_iterations flt = iters \<and>
         shrink_factors flt = shrink \<and> smoothing_sigmas flt = sigmas)) \<and>
   (length shrink = length sigmas \<and>
    \<not> (is_uint32 bins \<and> is_uint32 iters \<and> list_all is_uint32 shrink) \<longrightarrow>
      RigidMultiModalRegistration_init v bins lr step iters shrink sigmas = Inl OverflowError \<or>
      RigidMultiModalRegistration_init v bins lr step iters shrink sigmas = Inl TypeError)"
  by (auto simp: RigidMultiModalRegistration_init_def)

theorem init_value_error_iff_lengths_differ_witness:
  "length [4, 2, 1 :: int] \<noteq> length [2, 1 :: float] \<and>
   RigidMultiModalRegistration_init False 200 1 (1 / 1000) 2 [4, 2, 1] [2, 1] =
     Inl (ValueError ''shrink_factors and smoothing_sigmas need to be same length'') \<and>
   length [4, 2, 1 :: int] = length [2, 1, 0 :: float] \<and>
   is_uint32 200 \<and> is_uint32 2 \<and> list_all is_uint32 [4, 2, 1] \<and>
   RigidMultiModalRegistration_init False 200 1 (1 / 1000) 2 [4, 2, 1] [2, 1, 0] = Inr filter0"
  using
    init_value_error_iff_lengths_differ [of False 200 1 "1 / 1000" 2 "[4, 2, 1]" "[2, 1]"]
    init_value_error_iff_lengths_differ [of False 200 1 "1 / 1000" 2 "[4, 2, 1]" "[2, 1, 0]"]
  by (simp add: RigidMultiModalRegistration_init_def filter0_def is_uint32_def)

text \<open>
  The claim C2 as it is worded, that construction succeeds for equal lengths whatever
  the values, fails for a negative shrink factor: the lengths are equal and the setter
  of the shrink factors raises.
\<close>

theorem init_equal_lengths_counterexample:
  "length [- 4, 2, 1 :: int] = length [2, 1, 0 :: float] \<and>
   RigidMultiModalRegistration_init False 200 1 (1 / 1000) 200 [- 4, 2, 1] [2, 1, 0] =
     Inl TypeError"
  by (simp add: RigidMultiModalRegistration_init_def is_uint32_def)

text \<open>
  C3. Called without a parameter object, \<open>execute\<close> raises a \<open>ValueError\<close> at once: the
  filter and the world are as they were, so no registration work was done.
\<close>

theorem execute_without_params_raises:
  "execute lib self img None w = (Inl (ValueError ''params is not defined''), self, w)"
  by (simp add: execute_def)

text \<open>
  C4. The normalisation in \<open>execute\<close> stays inside the call: whatever the arguments and
  the outcome, every parameter object is as it was (so are its \<open>fixed_image\<close> and
  \<open>plot_directory_path\<close>), and every image object that existed before the call, the
  caller's fixed and moving images among them, is as it was. The call only adds image
  objects.
\<close>

theorem execute_leaves_caller_objects:
  "params_objs (snd (snd (execute lib self img params w))) = params_objs w \<and>
   take (length (images w)) (images (snd (snd (execute lib self img params w)))) = images w \<and>
   length (images w) \<le> length (images (snd (snd (execute lib self img params w))))"
proof (cases params)
  case None
  then show ?thesis by (simp add: execute_def)
next
  case (Some pr)
  show ?thesis
  proof (cases "plot_directory_path (params_objs w ! pr) = []")
    case True
    with Some show ?thesis
      by (simp add: execute_def new_image_def new_transform_def Let_def
          split: prod.splits sum.splits)
  next
    case False
    with Some show ?thesis
      by (simp add: execute_def new_image_def new_transform_def Let_def
          split: prod.splits sum.splits)
  qed
qed

text \<open>
  C5. With a parameter object, \<open>execute\<close> raises nothing and returns its result, whatever
  the engine's run was: the result is a new image object, the resampled image. If the
  filter is verbose it prints the final metric value and the description of the stopping
  condition; if not, it prints the non-convergence warning exactly when the optimiser's
  iteration count equals \<open>number_of_iterations\<close>, and nothing otherwise. The calls into
  SimpleITK and matplotlib, the writing of the plots among them, are taken to succeed.
\<close>

theorem execute_reports_and_returns:
  assumes "pr < length (params_objs w)" and "img < length (images w)"
    and "fixed_image (params_objs w ! pr) < length (images w)"
    and "list_all plotter_ok (commands (registration self))"
  shows "\<exists>self' w' res.
     execute lib self img (Some pr) w = (Inr res, self', w') \<and>
     length (images w) \<le> res \<and> res < length (images w') \<and>
     images w' ! res =
       Resample lib (Normalize lib (images w ! img))
         (images w ! fixed_image (params_objs w ! pr))
         (final_transform
            (the_run lib self (images w ! img) (images w ! fixed_image (params_objs w ! pr))))
         sitkLinear 0 (GetPixelIDValue lib (Normalize lib (images w ! img))) \<and>
     (verbose self \<longrightarrow>
        stdout w' = stdout w @
          [FinalMetricValue (metric_value
             (the_run lib self (images w ! img) (images w ! fixed_image (params_objs w ! pr)))),
           StoppingCondition (stop_condition_description
             (the_run lib self (images w ! img) (images w ! fixed_image (params_objs w ! pr))))]) \<and>
     (\<not> verbose self \<longrightarrow>
        (number_of_iterations self = optimizer_iteration
           (the_run lib self (images w ! img) (images w ! fixed_image (params_objs w ! pr)))
         \<longrightarrow> stdout w' = stdout w @ [DidNotConverge]) \<and>
        (number_of_iterations self \<noteq> optimizer_iteration
           (the_run lib self (images w ! img) (images w ! fixed_image (params_objs w ! pr)))
         \<longrightarrow> stdout w' = stdout w))"
proof -
  let ?r = "the_run lib self (images w ! img) (images w ! fixed_image (params_objs w ! pr))"
  from execute_success [OF assms, of lib] obtain self' w' res where
    e: "execute lib self img (Some pr) w = (Inr res, self', w')" and
    n: "length (images w) \<le> res" "res < length (images w')" and
    i: "images w' ! res =
       Resample lib (Normalize lib (images w ! img))
         (images w ! fixed_image (params_objs w ! pr)) (final_transform ?r)
         sitkLinear 0 (GetPixelIDValue lib (Normalize lib (images w ! img)))" and
    s: "stdout w' = stdout w @ report self ?r"
    by blast
  show ?thesis
    using e n i s by (simp add: report_def)
qed

theorem execute_reports_and_returns_witness:
  "0 < length (params_objs world0) \<and> 0 < length (images world0) \<and>
   fixed_image (params_objs world0 ! 0) < length (images world0) \<and>
   list_all plotter_ok (commands (registration filter0)) \<and>
   \<not> verbose filter0 \<and>
   number_of_iterations filter0 =
     optimizer_iteration (the_run sym_lib filter0 (images world0 ! 0) (images world0 ! 1)) \<and>
   (\<exists>self' w' res.
      execute sym_lib filter0 0 (Some 0) world0 = (Inr res, self', w') \<and>
      length (images world0) \<le> res \<and> res < length (images w') \<and>
      images w' ! res =
        ResampleOf (NormalizeOf (Source 0 sitkUInt8)) (Source 1 sitkUInt16)
          (Estimate 4 (Centered (CastOf (Source 1 sitkUInt16) sitkUInt8) (Source 0 sitkUInt8)))
          sitkLinear 0 sitkFloat64 \<and>
      stdout w' = [DidNotConverge])"
proof -
  have h1: "0 < length (params_objs world0)" and h2: "0 < length (images world0)"
    and h3: "fixed_image (params_objs world0 ! 0) < length (images world0)"
    and h4: "list_all plotter_ok (commands (registration filter0))"
    by (simp_all add: world0_def filter0_def)
  have v: "\<not> verbose filter0"
    by (simp add: filter0_def)
  have n: "number_of_iterations filter0 =
     optimizer_iteration (the_run sym_lib filter0 (images world0 ! 0) (images world0 ! 1))"
    by (simp add: filter0_def the_run_def sym_lib_def sym_optimize_def)
  have i: "number_of_iterations filter0 = 2"
    by (simp add: filter0_def)
  show ?thesis
    using h1 h2 h3 h4 v n execute_reports_and_returns [OF h1 h2 h3 h4, of sym_lib]
    by (simp add: i world0_def sym_lib_def the_run_def sym_optimize_def)
qed

text \<open>
  C1, as the code has it. With a parameter object, \<open>execute\<close> returns a new image: the
  normalised moving image (line 133 rebinds \<open>image\<close> to \<open>sitk.Normalize(image)\<close>)
  resampled onto the grid of the caller's fixed image with the transform the engine
  returned, linear interpolation and the default value 0.0. The pixel type asked of
  \<open>Resample\<close> is that of the normalised moving image.
\<close>

theorem execute_resamples_normalized_image:
  assumes "pr < length (params_objs w)" and "img < length (images w)"
    and "fixed_image (params_objs w ! pr) < length (images w)"
    and "list_all plotter_ok (commands (registration self))"
  shows "\<exists>self' w' res.
     execute lib self img (Some pr) w = (Inr res, self', w') \<and>
     res < length (images w') \<and>
     images w' ! res =
       Resample lib (Normalize lib (images w ! img))
         (images w ! fixed_image (params_objs w ! pr))
         (final_transform
            (the_run lib self (images w ! img) (images w ! fixed_image (params_objs w ! pr))))
         sitkLinear 0 (GetPixelIDValue lib (Normalize lib (images w ! img)))"
  using execute_success [OF assms, of lib] by blast

theorem execute_resamples_normalized_image_witness:
  "0 < length (params_objs world0) \<and> 0 < length (images world0) \<and>
   fixed_image (params_objs world0 ! 0) < length (images world0) \<and>
   list_all plotter_ok (commands (registration filter0)) \<and>
   (\<exists>self' w' res.
     execute sym_lib filter0 0 (Some 0) world0 = (Inr res, self', w') \<and>
     res < length (images w') \<and>
     images w' ! res =
       ResampleOf (NormalizeOf (Source 0 sitkUInt8)) (Source 1 sitkUInt16)
         (Estimate 4 (Centered (CastOf (Source 1 sitkUInt16) sitkUInt8) (Source 0 sitkUInt8)))
         sitkLinear 0 sitkFloat64)"
proof -
  have h1: "0 < length (params_objs world0)" and h2: "0 < length (images world0)"
    and h3: "fixed_image (params_objs world0 ! 0) < length (images world0)"
    and h4: "list_all plotter_ok (commands (registration filter0))"
    by (simp_all add: world0_def filter0_def)
  show ?thesis
    using h1 h2 h3 h4 execute_resamples_normalized_image [OF h1 h2 h3 h4, of sym_lib]
    by (simp add: world0_def sym_lib_def the_run_def sym_optimize_def)
qed

text \<open>
  The claim C1 as it is worded, that the moving image itself is resampled and that the
  result has the moving image's pixel type, fails where \<open>Normalize\<close> changes an image or
  its pixel type: for the 8-bit moving image of \<open>world0\<close> the result is the resampled
  normalised image, of type 64-bit float.
\<close>

theorem execute_resamples_moving_image_counterexample:
  "fst (execute sym_lib filter0 0 (Some 0) world0) = Inr 7 \<and>
   images (snd (snd (execute sym_lib filter0 0 (Some 0) world0))) ! 7 \<noteq>
     Resample sym_lib (images world0 ! 0) (images world0 ! 1)
       (final_transform (the_run sym_lib filter0 (images world0 ! 0) (images world0 ! 1)))
       sitkLinear 0 (GetPixelIDValue sym_lib (images world0 ! 0)) \<and>
   GetPixelIDValue sym_lib (images (snd (snd (execute sym_lib filter0 0 (Some 0) world0))) ! 7) \<noteq>
     GetPixelIDValue sym_lib (images world0 ! 0)"
  by (simp add: execute_def world0_def filter0_def sym_lib_def new_image_def
      new_transform_def Let_def sym_optimize_def RegistrationPlotter_def save_plot_def
      values_at_def start_plot_def end_plot_def update_multiresolution_iterations_def
      report_def the_run_def)

end
